theory Spec2Isabelle
  imports Main "HOL-Library.Monad_Syntax"
begin

section \<open>Python values, strings and exceptions\<close>

text \<open>
  The fields of the address book hold either \<^verbatim>\<open>None\<close> or a \<^verbatim>\<open>str\<close>. A Python string is a
  sequence of code points; a \<^typ>\<open>char\<close> stands for a code point below 256, so that
  \<^const>\<open>length\<close> is Python's \<^verbatim>\<open>len\<close>. Code points from 256 on are outside the model.
\<close>

datatype pyval = PNone | PStr string

text \<open>\<^verbatim>\<open>str(v)\<close>: the text \<^verbatim>\<open>None\<close> for \<^verbatim>\<open>None\<close>, the string itself for a string.\<close>

fun str :: "pyval \<Rightarrow> string" where
  "str PNone = ''None''"
| "str (PStr s) = s"

text \<open>Truth value of an object in a condition: \<^verbatim>\<open>None\<close> and the empty string are false.\<close>

fun truthy :: "pyval \<Rightarrow> bool" where
  "truthy PNone = False"
| "truthy (PStr s) = (s \<noteq> [])"

text \<open>
  Exceptions, with their message. \<open>ValueError\<close> carries the message given at the \<^verbatim>\<open>raise\<close>
  statement of the source. \<open>TypeError\<close> and \<open>AttributeError\<close> are raised by the Python
  runtime and carry the message it gives them. \<open>LibValueError\<close> is a \<^verbatim>\<open>ValueError\<close> raised
  inside \<^verbatim>\<open>datetime\<close>; its message text is not modelled. \<^verbatim>\<open>except ValueError\<close> catches both
  \<open>ValueError\<close> and \<open>LibValueError\<close>.
\<close>

datatype error =
    ValueError string
  | LibValueError
  | TypeError string
  | AttributeError string

definition in_range :: "char \<Rightarrow> char \<Rightarrow> char \<Rightarrow> bool" where
  "in_range lo hi c = ((of_char lo :: nat) \<le> of_char c \<and> (of_char c :: nat) \<le> of_char hi)"

text \<open>
  \<^verbatim>\<open>str.isdigit\<close>: true when the string is not empty and every character has the Unicode
  property Numeric_Type=Digit or Decimal. Below code point 256 these are \<^verbatim>\<open>0\<close> to \<^verbatim>\<open>9\<close>
  and the superscripts U+00B2, U+00B3 and U+00B9.
\<close>

definition isdigit_char :: "char \<Rightarrow> bool" where
  "isdigit_char c =
     (in_range CHR ''0'' CHR ''9'' c \<or> c = CHR 0xB2 \<or> c = CHR 0xB3 \<or> c = CHR 0xB9)"

definition isdigit :: "string \<Rightarrow> bool" where
  "isdigit s = (s \<noteq> [] \<and> list_all isdigit_char s)"

section \<open>Validators\<close>

definition msg_only_digits :: string where
  "msg_only_digits = ''The phone number must contain only digits.''"

definition msg_nine_digits :: string where
  "msg_nine_digits = ''Phone number must contain exactly 9 digits.''"

text \<open>
  \<^verbatim>\<open>PhoneValidator.validate\<close>. On \<^verbatim>\<open>None\<close> the call \<^verbatim>\<open>value.isdigit()\<close> raises
  \<^verbatim>\<open>AttributeError\<close>, with the message
  \<^verbatim>\<open>'NoneType' object has no attribute 'isdigit'\<close>.
\<close>

definition msg_none_isdigit :: string where
  "msg_none_isdigit =
     [CHR 0x27] @ ''NoneType'' @ [CHR 0x27] @ '' object has no attribute ''
     @ [CHR 0x27] @ ''isdigit'' @ [CHR 0x27]"

fun PhoneValidator_validate :: "pyval \<Rightarrow> error + unit" where
  "PhoneValidator_validate PNone = Inl (AttributeError msg_none_isdigit)"
| "PhoneValidator_validate (PStr v) =
     (if \<not> isdigit v then Inl (ValueError msg_only_digits)
      else if length v \<noteq> 9 then Inl (ValueError msg_nine_digits)
      else Inr ())"


subsection \<open>Backtracking regular expressions\<close>

text \<open>
  Python's \<^verbatim>\<open>re\<close> is a backtracking matcher. A pattern is modelled by the function that
  maps the input to the list of the inputs remaining after each way of matching a prefix,
  in the order in which the matcher tries them; the head of the list is the match that
  \<^verbatim>\<open>re\<close> reports.
\<close>

type_synonym matcher = "string \<Rightarrow> string list"

definition re_cls :: "(char \<Rightarrow> bool) \<Rightarrow> matcher" where
  "re_cls P s = (case s of [] \<Rightarrow> [] | c # cs \<Rightarrow> if P c then [cs] else [])"

definition re_lit :: "char \<Rightarrow> matcher" where
  "re_lit a = re_cls (\<lambda>c. c = a)"

definition re_seq :: "matcher \<Rightarrow> matcher \<Rightarrow> matcher" where
  "re_seq p q s = List.bind (p s) q"

definition re_alt :: "matcher \<Rightarrow> matcher \<Rightarrow> matcher" where
  "re_alt p q s = p s @ q s"

text \<open>
  Greedy repetition \<^verbatim>\<open>p*\<close>: one more iteration is tried before stopping. An iteration
  must consume input, so the length of the input bounds the number of iterations.
\<close>

fun re_rep :: "nat \<Rightarrow> matcher \<Rightarrow> matcher" where
  "re_rep 0 p s = [s]"
| "re_rep (Suc n) p s =
     List.bind (filter (\<lambda>t. length t < length s) (p s)) (re_rep n p) @ [s]"

definition re_star :: "matcher \<Rightarrow> matcher" where
  "re_star p s = re_rep (length s) p s"

definition re_plus :: "matcher \<Rightarrow> matcher" where
  "re_plus p = re_seq p (re_star p)"

text \<open>The text matched by a group: what was consumed, with the remaining input.\<close>

definition capture :: "matcher \<Rightarrow> string \<Rightarrow> (string \<times> string) list" where
  "capture p s = map (\<lambda>t. (take (length s - length t) s, t)) (p s)"

text \<open>
  \<^verbatim>\<open>re.findall\<close>: scan from the left; at each position take the first match and go on
  after it; where nothing matches, advance by one character. The result lists the text of
  the matches (with groups, Python lists tuples, one for each match as well). An empty
  match is recorded and the scan advances by one character.
\<close>

function findall :: "matcher \<Rightarrow> string \<Rightarrow> string list" where
  "findall p s =
     (case p s of
        [] \<Rightarrow> (case s of [] \<Rightarrow> [] | c # cs \<Rightarrow> findall p cs)
      | t # ts \<Rightarrow>
          (if length t < length s then take (length s - length t) s # findall p t
           else [] # (case s of [] \<Rightarrow> [] | c # cs \<Rightarrow> findall p cs)))"
  by pat_completeness auto
termination
  by (relation "measure (\<lambda>(p, s). length s)") auto

declare findall.simps [simp del]

subsection \<open>Dates\<close>

record datetime =
  year :: int
  month :: int
  day :: int
  hour :: int
  minute :: int
  second :: int
  microsecond :: int

record timedelta =
  days :: int
  seconds :: int
  microseconds :: int

definition is_leap :: "int \<Rightarrow> bool" where
  "is_leap y = (y mod 4 = 0 \<and> (y mod 100 \<noteq> 0 \<or> y mod 400 = 0))"

definition DAYS_IN_MONTH :: "int list" where
  "DAYS_IN_MONTH = [-1, 31, 28, 31, 30, 31, 30, 31, 31, 30, 31, 30, 31]"

definition DAYS_BEFORE_MONTH :: "int list" where
  "DAYS_BEFORE_MONTH = [-1, 0, 31, 59, 90, 120, 151, 181, 212, 243, 273, 304, 334]"

definition days_before_year :: "int \<Rightarrow> int" where
  "days_before_year yr = (let y = yr - 1 in y * 365 + y div 4 - y div 100 + y div 400)"

text \<open>The next three are called with \<open>1 \<le> m \<le> 12\<close> only.\<close>

definition days_in_month :: "int \<Rightarrow> int \<Rightarrow> int" where
  "days_in_month y m = (if m = 2 \<and> is_leap y then 29 else DAYS_IN_MONTH ! nat m)"

definition days_before_month :: "int \<Rightarrow> int \<Rightarrow> int" where
  "days_before_month y m =
     DAYS_BEFORE_MONTH ! nat m + (if m > 2 \<and> is_leap y then 1 else 0)"

definition ymd2ord :: "int \<Rightarrow> int \<Rightarrow> int \<Rightarrow> int" where
  "ymd2ord y m d = days_before_year y + days_before_month y m + d"

text \<open>
  The constructor \<^verbatim>\<open>datetime(year, month, day)\<close>: the date fields are checked, the time
  is midnight.
\<close>

definition datetime_new :: "int \<Rightarrow> int \<Rightarrow> int \<Rightarrow> error + datetime" where
  "datetime_new y m d =
     (if \<not> (1 \<le> y \<and> y \<le> 9999) then Inl LibValueError
      else if \<not> (1 \<le> m \<and> m \<le> 12) then Inl LibValueError
      else if \<not> (1 \<le> d \<and> d \<le> days_in_month y m) then Inl LibValueError
      else Inr \<lparr>year = y, month = m, day = d, hour = 0, minute = 0, second = 0,
                microsecond = 0\<rparr>)"

definition toordinal :: "datetime \<Rightarrow> int" where
  "toordinal t = ymd2ord (year t) (month t) (day t)"

text \<open>Comparison of two datetimes compares the tuples of their fields.\<close>

fun lex_gt :: "int list \<Rightarrow> int list \<Rightarrow> bool" where
  "lex_gt (x # xs) (y # ys) = (x > y \<or> (x = y \<and> lex_gt xs ys))"
| "lex_gt _ _ = False"

definition dt_fields :: "datetime \<Rightarrow> int list" where
  "dt_fields t = [year t, month t, day t, hour t, minute t, second t, microsecond t]"

definition dt_gt :: "datetime \<Rightarrow> datetime \<Rightarrow> bool" where
  "dt_gt a b = lex_gt (dt_fields a) (dt_fields b)"

text \<open>
  \<^verbatim>\<open>timedelta(days, seconds, microseconds)\<close> normalises its arguments so that
  \<open>0 \<le> seconds < 86400\<close> and \<open>0 \<le> microseconds < 1000000\<close>; the days take the rest,
  rounded down.
\<close>

definition timedelta_new :: "int \<Rightarrow> int \<Rightarrow> int \<Rightarrow> timedelta" where
  "timedelta_new d s us =
     (let total = (d * 86400 + s) * 1000000 + us
      in \<lparr>days = total div (86400 * 1000000),
          seconds = (total div 1000000) mod 86400,
          microseconds = total mod 1000000\<rparr>)"

definition dt_sub :: "datetime \<Rightarrow> datetime \<Rightarrow> timedelta" where
  "dt_sub a b =
     (let days1 = toordinal a; days2 = toordinal b;
          secs1 = second a + minute a * 60 + hour a * 3600;
          secs2 = second b + minute b * 60 + hour b * 3600
      in timedelta_new (days1 - days2) (secs1 - secs2) (microsecond a - microsecond b))"

text \<open>
  \<^verbatim>\<open>datetime.strptime(value, "%d-%m-%Y")\<close>. The format compiles to the regular expression
  \<^verbatim>\<open>(?P<d>3[0-1]|[1-2]\d|0[1-9]|[1-9]| [1-9])-(?P<m>1[0-2]|0[1-9]|[1-9])-(?P<Y>\d\d\d\d)\<close>,
  matched at the start of the input; input left over after the match is an error. Below
  code point 256, \<^verbatim>\<open>\d\<close> is \<^verbatim>\<open>[0-9]\<close>.
\<close>

definition re_digit :: matcher where
  "re_digit = re_cls (in_range CHR ''0'' CHR ''9'')"

definition re_d :: matcher where
  "re_d =
     re_alt (re_seq (re_lit CHR ''3'') (re_cls (in_range CHR ''0'' CHR ''1'')))
    (re_alt (re_seq (re_cls (in_range CHR ''1'' CHR ''2'')) re_digit)
    (re_alt (re_seq (re_lit CHR ''0'') (re_cls (in_range CHR ''1'' CHR ''9'')))
    (re_alt (re_cls (in_range CHR ''1'' CHR ''9''))
            (re_seq (re_lit CHR '' '') (re_cls (in_range CHR ''1'' CHR ''9''))))))"

definition re_m :: matcher where
  "re_m =
     re_alt (re_seq (re_lit CHR ''1'') (re_cls (in_range CHR ''0'' CHR ''2'')))
    (re_alt (re_seq (re_lit CHR ''0'') (re_cls (in_range CHR ''1'' CHR ''9'')))
            (re_cls (in_range CHR ''1'' CHR ''9'')))"

definition re_Y :: matcher where
  "re_Y = re_seq re_digit (re_seq re_digit (re_seq re_digit re_digit))"

definition format_regex_match :: "string \<Rightarrow> ((string \<times> string \<times> string) \<times> string) list" where
  "format_regex_match s =
     do {
       (d, t1) \<leftarrow> capture re_d s;
       t2 \<leftarrow> re_lit CHR ''-'' t1;
       (m, t3) \<leftarrow> capture re_m t2;
       t4 \<leftarrow> re_lit CHR ''-'' t3;
       (y, t5) \<leftarrow> capture re_Y t4;
       [((d, m, y), t5)]
     }"

text \<open>
  \<^verbatim>\<open>int(s)\<close> on the text of a matched group: decimal digits, after the blank that the
  day group may start with.
\<close>

definition py_int :: "string \<Rightarrow> int" where
  "py_int s =
     foldl (\<lambda>a c. 10 * a + (int (of_char c) - 48)) 0 (dropWhile (\<lambda>c. c = CHR '' '') s)"

definition msg_strptime_none :: string where
  "msg_strptime_none = ''strptime() argument 1 must be str, not None''"

fun strptime :: "pyval \<Rightarrow> error + datetime" where
  "strptime PNone = Inl (TypeError msg_strptime_none)"
| "strptime (PStr s) =
     (case format_regex_match s of
        [] \<Rightarrow> Inl LibValueError
      | ((d, m, y), rest) # _ \<Rightarrow>
          (if rest \<noteq> [] then Inl LibValueError
           else datetime_new (py_int y) (py_int m) (py_int d)))"

definition msg_bad_date :: string where
  "msg_bad_date = ''Birthday must be in '' @ [CHR 0x27] @ ''dd-mm-yyyy'' @ [CHR 0x27] @ '' format.''"

text \<open>
  \<^verbatim>\<open>DateValidator.validate\<close>: a \<^verbatim>\<open>ValueError\<close> of \<^verbatim>\<open>strptime\<close> is caught and replaced; the
  \<^verbatim>\<open>TypeError\<close> that \<^verbatim>\<open>strptime\<close> raises on \<^verbatim>\<open>None\<close> is not caught.
\<close>

definition DateValidator_validate :: "pyval \<Rightarrow> error + unit" where
  "DateValidator_validate v =
     (case strptime v of
        Inr _ \<Rightarrow> Inr ()
      | Inl (ValueError _) \<Rightarrow> Inl (ValueError msg_bad_date)
      | Inl LibValueError \<Rightarrow> Inl (ValueError msg_bad_date)
      | Inl e \<Rightarrow> Inl e)"


subsection \<open>The email pattern\<close>

text \<open>
  The pattern of the source is
  \<^verbatim>\<open>([A-Za-z0-9]+[.-_])*[A-Za-z0-9]+@[A-Za-z0-9-]+(\.[A-Z|a-z]{2,})+\<close>.
  In a character class, \<^verbatim>\<open>.-_\<close> is the range from \<^verbatim>\<open>.\<close> (code 46) to \<^verbatim>\<open>_\<close> (code 95), and
  \<^verbatim>\<open>|\<close> is an ordinary member.
\<close>

definition alnum :: "char \<Rightarrow> bool" where
  "alnum c =
     (in_range CHR ''A'' CHR ''Z'' c \<or> in_range CHR ''a'' CHR ''z'' c
      \<or> in_range CHR ''0'' CHR ''9'' c)"

definition email_pattern :: matcher where
  "email_pattern =
     re_seq (re_star (re_seq (re_plus (re_cls alnum))
                             (re_cls (in_range CHR ''.'' CHR ''_''))))
    (re_seq (re_plus (re_cls alnum))
    (re_seq (re_lit CHR ''@'')
    (re_seq (re_plus (re_cls (\<lambda>c. alnum c \<or> c = CHR ''-'')))
            (re_plus (re_seq (re_lit CHR ''.'')
               (let tld = re_cls (\<lambda>c. in_range CHR ''A'' CHR ''Z'' c \<or> c = CHR ''|''
                                        \<or> in_range CHR ''a'' CHR ''z'' c)
                in re_seq tld (re_seq tld (re_star tld))))))))"

definition msg_bad_email :: string where
  "msg_bad_email = ''Incorrect email address''"

text \<open>
  \<^verbatim>\<open>EmailValidator.validate\<close>. The validator object has an attribute \<^verbatim>\<open>value\<close> of its own,
  which the method assigns on every normal return; the first argument is that attribute
  before the call (\<open>None\<close> while it does not exist), the result is the attribute after it.
\<close>

fun EmailValidator_validate :: "pyval option \<Rightarrow> pyval \<Rightarrow> error + pyval option" where
  "EmailValidator_validate self_value (PStr v) =
     (let check = findall email_pattern v
      in if length check = 1 then Inr (Some (PStr v))
         else Inl (ValueError msg_bad_email))"
| "EmailValidator_validate self_value PNone = Inr (Some PNone)"

text \<open>
  The three validator classes. An \<open>EmailValidator\<close> object carries its \<^verbatim>\<open>value\<close>
  attribute. \<open>validate\<close> dispatches on the class and returns the validator object after
  the call.
\<close>

datatype Validator = PhoneValidator | DateValidator | EmailValidator "pyval option"

fun validate :: "Validator \<Rightarrow> pyval \<Rightarrow> error + Validator" where
  "validate PhoneValidator v =
     (case PhoneValidator_validate v of Inl e \<Rightarrow> Inl e | Inr _ \<Rightarrow> Inr PhoneValidator)"
| "validate DateValidator v =
     (case DateValidator_validate v of Inl e \<Rightarrow> Inl e | Inr _ \<Rightarrow> Inr DateValidator)"
| "validate (EmailValidator a) v =
     (case EmailValidator_validate a v of Inl e \<Rightarrow> Inl e | Inr a' \<Rightarrow> Inr (EmailValidator a'))"

section \<open>Field\<close>

text \<open>
  A method that mutates an object returns the exception it raised, if any, and the object
  after the call.
\<close>

record Field =
  "value" :: pyval
  validator :: "Validator option"

definition set_value :: "Field \<Rightarrow> pyval \<Rightarrow> error option \<times> Field" where
  "set_value self v =
     (case validator self of
        None \<Rightarrow> (None, self\<lparr>value := v\<rparr>)
      | Some vd \<Rightarrow>
          (case validate vd v of
             Inl e \<Rightarrow> (Some e, self)
           | Inr vd' \<Rightarrow> (None, self\<lparr>validator := Some vd', value := v\<rparr>)))"

definition get_value :: "Field \<Rightarrow> pyval" where
  "get_value self = value self"

section \<open>The phone list\<close>

text \<open>
  The methods of \<^verbatim>\<open>RecordPhone\<close> never mutate a \<^verbatim>\<open>Field\<close> that is already in the list, so
  the list holds the fields by value. What a method prints is returned as the list of the
  printed lines.
\<close>

record RecordPhone =
  phone :: Field
  phones :: "Field list"

definition add_phone :: "RecordPhone \<Rightarrow> pyval \<Rightarrow> error option \<times> RecordPhone" where
  "add_phone self ph =
     (let new_phone = \<lparr>value = PNone, validator = Some PhoneValidator\<rparr>
      in case set_value new_phone ph of
           (Some e, _) \<Rightarrow> (Some e, self)
         | (None, new_phone') \<Rightarrow> (None, self\<lparr>phones := phones self @ [new_phone']\<rparr>))"

definition remove_phone :: "RecordPhone \<Rightarrow> pyval \<Rightarrow> RecordPhone" where
  "remove_phone self ph =
     (let phone_to_remove = str ph
      in if phone_to_remove \<in> set (map (\<lambda>p. str (get_value p)) (phones self))
         then self\<lparr>phones := filter (\<lambda>p. str (get_value p) \<noteq> phone_to_remove) (phones self)\<rparr>
         else self)"

text \<open>The loop of \<^verbatim>\<open>edit_phone\<close>: the index of the first entry that compares equal.\<close>

fun first_index :: "nat \<Rightarrow> Field list \<Rightarrow> string \<Rightarrow> nat option" where
  "first_index i [] s = None"
| "first_index i (p # ps) s =
     (if str (get_value p) = s then Some i else first_index (Suc i) ps s)"

definition msg_phone_not_found :: string where
  "msg_phone_not_found = ''Old phone number not found.''"

definition edit_phone :: "RecordPhone \<Rightarrow> pyval \<Rightarrow> pyval \<Rightarrow> string list \<times> RecordPhone" where
  "edit_phone self old_phone new_phone =
     (let old_phone_obj = \<lparr>value = old_phone, validator = None\<rparr>
      in case first_index 0 (phones self) (str (get_value old_phone_obj)) of
           Some i \<Rightarrow>
             ([], self\<lparr>phones := (phones self)
                       [i := \<lparr>value = new_phone, validator = Some PhoneValidator\<rparr>]\<rparr>)
         | None \<Rightarrow> ([msg_phone_not_found], self))"

section \<open>The birthday\<close>

record RecordBirthday =
  birthday :: Field

definition add_birthday :: "RecordBirthday \<Rightarrow> pyval \<Rightarrow> error option \<times> RecordBirthday" where
  "add_birthday self b =
     (case set_value (birthday self) b of (e, f) \<Rightarrow> (e, self\<lparr>birthday := f\<rparr>))"

definition remove_birthday :: "RecordBirthday \<Rightarrow> error option \<times> RecordBirthday" where
  "remove_birthday self =
     (case set_value (birthday self) PNone of (e, f) \<Rightarrow> (e, self\<lparr>birthday := f\<rparr>))"

text \<open>
  \<^verbatim>\<open>days_to_birthday\<close> reads the clock with \<^verbatim>\<open>datetime.today()\<close>, which gives the local date
  and the time of day; the reading is the argument \<open>today\<close>. The result is \<open>None\<close> for
  Python's \<^verbatim>\<open>None\<close>.
\<close>

definition days_to_birthday :: "RecordBirthday \<Rightarrow> datetime \<Rightarrow> error + int option" where
  "days_to_birthday self today =
     (if truthy (get_value (birthday self)) then
        (case strptime (get_value (birthday self)) of
           Inl e \<Rightarrow> Inl e
         | Inr birthday_date \<Rightarrow>
             (case datetime_new (year today) (month birthday_date) (day birthday_date) of
                Inl e \<Rightarrow> Inl e
              | Inr next_birthday \<Rightarrow>
                  (if dt_gt today next_birthday then
                     (case datetime_new (year today + 1) (month birthday_date)
                             (day birthday_date) of
                        Inl e \<Rightarrow> Inl e
                      | Inr next_birthday' \<Rightarrow> Inr (Some (days (dt_sub next_birthday' today))))
                   else Inr (Some (days (dt_sub next_birthday today))))))
      else Inr None)"

section \<open>The notes\<close>

text \<open>
  The keys of the dictionary \<^verbatim>\<open>notes\<close> are Python objects. The class \<^verbatim>\<open>Field\<close> defines neither
  \<^verbatim>\<open>__eq__\<close> nor \<^verbatim>\<open>__hash__\<close>, so a \<^verbatim>\<open>Field\<close> object is equal to itself only; it is modelled
  with its identity. \<^verbatim>\<open>None\<close> and strings compare by value, and never equal a \<^verbatim>\<open>Field\<close>.
\<close>

datatype pyobj = Val pyval | FieldObj nat Field

fun py_eq :: "pyobj \<Rightarrow> pyobj \<Rightarrow> bool" where
  "py_eq (Val a) (Val b) = (a = b)"
| "py_eq (FieldObj i f) (FieldObj j g) = (i = j)"
| "py_eq _ _ = False"

text \<open>A dictionary, in insertion order: membership, assignment, lookup, deletion.\<close>

fun dict_contains :: "(pyobj \<times> 'v) list \<Rightarrow> pyobj \<Rightarrow> bool" where
  "dict_contains [] k = False"
| "dict_contains ((k', v) # d) k = (py_eq k' k \<or> dict_contains d k)"

fun dict_set :: "(pyobj \<times> 'v) list \<Rightarrow> pyobj \<Rightarrow> 'v \<Rightarrow> (pyobj \<times> 'v) list" where
  "dict_set [] k v = [(k, v)]"
| "dict_set ((k', v') # d) k v =
     (if py_eq k' k then (k', v) # d else (k', v') # dict_set d k v)"

fun dict_get :: "(pyobj \<times> 'v) list \<Rightarrow> pyobj \<Rightarrow> 'v option" where
  "dict_get [] k = None"
| "dict_get ((k', v) # d) k = (if py_eq k' k then Some v else dict_get d k)"

fun dict_del :: "(pyobj \<times> 'v) list \<Rightarrow> pyobj \<Rightarrow> (pyobj \<times> 'v) list" where
  "dict_del [] k = []"
| "dict_del ((k', v) # d) k = (if py_eq k' k then d else (k', v) # dict_del d k)"

record RecordInfo =
  tag :: Field
  "note" :: Field
  "notes" :: "(pyobj \<times> Field) list"

text \<open>The constructor \<^verbatim>\<open>RecordInfo()\<close> with its default arguments.\<close>

definition RecordInfo_init :: RecordInfo where
  "RecordInfo_init =
     \<lparr>tag = \<lparr>value = PNone, validator = None\<rparr>,
      note = \<lparr>value = PNone, validator = None\<rparr>,
      notes = []\<rparr>"

text \<open>
  \<^verbatim>\<open>add_note\<close> creates the key object \<^verbatim>\<open>Field(tag)\<close>; \<open>oid\<close> is the identity of that new
  object.
\<close>

definition add_note :: "RecordInfo \<Rightarrow> nat \<Rightarrow> pyval \<Rightarrow> pyval \<Rightarrow> RecordInfo" where
  "add_note self oid tg nt =
     self\<lparr>notes := dict_set (notes self)
                      (FieldObj oid \<lparr>value = tg, validator = None\<rparr>)
                      \<lparr>value = nt, validator = None\<rparr>\<rparr>"

definition msg_edit_missing :: string where
  "msg_edit_missing = ''Note with this tag does not exist.''"

text \<open>
  Formatting an object in an f-string. For a \<^verbatim>\<open>Field\<close> object Python prints the default
  representation \<^verbatim>\<open><__main__.Field object at 0x...>\<close>: the module (the script that is run)
  and the class, then the address of the object in hexadecimal. The identity of an object
  is its address.
\<close>

definition hex_digit :: "nat \<Rightarrow> char" where
  "hex_digit d = ''0123456789abcdef'' ! d"

function hex :: "nat \<Rightarrow> string" where
  "hex n = (if n < 16 then [hex_digit n] else hex (n div 16) @ [hex_digit (n mod 16)])"
  by pat_completeness auto
termination
  by (relation "measure (\<lambda>n. n)") auto

declare hex.simps [simp del]

fun format_obj :: "pyobj \<Rightarrow> string" where
  "format_obj (Val v) = str v"
| "format_obj (FieldObj i f) = ''<__main__.Field object at 0x'' @ hex i @ ''>''"

definition msg_removed :: "pyobj \<Rightarrow> string" where
  "msg_removed tg =
     ''Success:  note with tag '' @ format_obj tg @ '' has been removed successfully. '' @ [CHR 0x0A]"

definition msg_remove_missing :: "pyobj \<Rightarrow> string" where
  "msg_remove_missing tg = ''Note with tag '' @ format_obj tg @ '' does not exist.''"

definition edit_note ::
  "RecordInfo \<Rightarrow> pyobj \<Rightarrow> pyval \<Rightarrow> string list \<times> error option \<times> RecordInfo" where
  "edit_note self tg new_note =
     (if dict_contains (notes self) tg then
        (case dict_get (notes self) tg of
           None \<Rightarrow> ([], None, self)
         | Some f \<Rightarrow>
             (case set_value f new_note of
                (e, f') \<Rightarrow> ([], e, self\<lparr>notes := dict_set (notes self) tg f'\<rparr>)))
      else ([msg_edit_missing], None, self))"

definition remove_note :: "RecordInfo \<Rightarrow> pyobj \<Rightarrow> string list \<times> RecordInfo" where
  "remove_note self tg =
     (if dict_contains (notes self) tg
      then ([msg_removed tg], self\<lparr>notes := dict_del (notes self) tg\<rparr>)
      else ([msg_remove_missing tg], self))"

text \<open>A dictionary all of whose keys are \<^verbatim>\<open>Field\<close> objects, as \<^verbatim>\<open>add_note\<close> builds it.\<close>

fun field_keys :: "(pyobj \<times> 'v) list \<Rightarrow> bool" where
  "field_keys [] = True"
| "field_keys ((FieldObj i f, v) # d) = field_keys d"
| "field_keys ((Val a, v) # d) = False"

section \<open>The wording of the specification\<close>

text \<open>
  The specification describes the email shape as: a local part of alphanumerics,
  optionally segmented by \<^verbatim>\<open>.\<close>, \<^verbatim>\<open>-\<close> or \<^verbatim>\<open>_\<close>; an \<^verbatim>\<open>@\<close>; a domain of alphanumerics and
  hyphens; at least one dot-separated top-level segment of two or more letters.
\<close>

definition spec_email_shape :: matcher where
  "spec_email_shape =
     re_seq (re_star (re_seq (re_plus (re_cls alnum))
                             (re_cls (\<lambda>c. c = CHR ''.'' \<or> c = CHR ''-'' \<or> c = CHR ''_''))))
    (re_seq (re_plus (re_cls alnum))
    (re_seq (re_lit CHR ''@'')
    (re_seq (re_plus (re_cls (\<lambda>c. alnum c \<or> c = CHR ''-'')))
            (re_plus (re_seq (re_lit CHR ''.'')
               (let letter = re_cls (\<lambda>c. in_range CHR ''A'' CHR ''Z'' c
                                           \<or> in_range CHR ''a'' CHR ''z'' c)
                in re_seq letter (re_seq letter (re_star letter))))))))"

definition spec_email_accepts :: "pyval \<Rightarrow> bool" where
  "spec_email_accepts v =
     (case v of PNone \<Rightarrow> True | PStr s \<Rightarrow> length (findall spec_email_shape s) = 1)"

text \<open>The decimal digits \<^verbatim>\<open>0\<close> to \<^verbatim>\<open>9\<close>.\<close>

definition spec_decimal_digit :: "char \<Rightarrow> bool" where
  "spec_decimal_digit c = in_range CHR ''0'' CHR ''9'' c"


text \<open>
  The date shape of the specification: a two-digit day, a two-digit month and a
  four-digit year, separated by dashes.
\<close>

definition spec_date_shape :: "string \<Rightarrow> bool" where
  "spec_date_shape s =
     (length s = 10
      \<and> list_all spec_decimal_digit (take 2 s) \<and> s ! 2 = CHR ''-''
      \<and> list_all spec_decimal_digit (take 2 (drop 3 s)) \<and> s ! 5 = CHR ''-''
      \<and> list_all spec_decimal_digit (drop 6 s))"

section \<open>Properties of the validators and of Field\<close>

lemma strptime_str_error: "strptime (PStr s) = Inl e \<Longrightarrow> e = LibValueError"
  by (auto simp: datetime_new_def split: list.splits prod.splits if_splits)

lemma validate_str_error:
  "validate vd (PStr s) = Inl e \<Longrightarrow>
     e = ValueError msg_only_digits \<or> e = ValueError msg_nine_digits
     \<or> e = ValueError msg_bad_date \<or> e = ValueError msg_bad_email"
proof (cases vd)
  case PhoneValidator
  assume "validate vd (PStr s) = Inl e"
  with PhoneValidator show ?thesis by (auto split: if_splits)
next
  case DateValidator
  assume a: "validate vd (PStr s) = Inl e"
  show ?thesis
  proof (cases "strptime (PStr s)")
    case (Inl e')
    from strptime_str_error [OF Inl] Inl a DateValidator show ?thesis
      by (simp add: DateValidator_validate_def)
  next
    case (Inr t)
    with a DateValidator show ?thesis by (simp add: DateValidator_validate_def)
  qed
next
  case (EmailValidator x)
  assume "validate vd (PStr s) = Inl e"
  with EmailValidator show ?thesis by (auto simp: Let_def split: if_splits)
qed

lemma validate_none_error:
  "validate vd PNone = Inl e \<Longrightarrow>
     e = AttributeError msg_none_isdigit \<or> e = TypeError msg_strptime_none"
  by (cases vd) (auto simp: DateValidator_validate_def)

text \<open>The validator object after a call of \<^verbatim>\<open>validate\<close> that returns.\<close>

lemma validate_result:
  "validate vd raw = Inr vd' \<Longrightarrow>
     vd' = (case vd of EmailValidator a \<Rightarrow> EmailValidator (Some raw) | _ \<Rightarrow> vd)"
  by (cases vd; cases raw) (auto simp: Let_def split: sum.splits if_splits)

text \<open>
  Claim C3, amended. \<^verbatim>\<open>set_value(raw)\<close> raises exactly when a validator is attached and
  rejects \<^verbatim>\<open>raw\<close>, and then raises the validator's error, which carries a message: for a
  string one of the four messages of the validators, for \<^verbatim>\<open>None\<close> the message of the
  runtime's \<^verbatim>\<open>AttributeError\<close> or \<^verbatim>\<open>TypeError\<close>. When it raises, the field is what it was
  before the call. When it returns, the stored value is \<^verbatim>\<open>raw\<close> and nothing else has
  changed, except that an \<^verbatim>\<open>EmailValidator\<close> now holds \<^verbatim>\<open>raw\<close> in its own \<^verbatim>\<open>value\<close>
  attribute.
\<close>

theorem set_value_all_or_nothing:
  "fst (set_value self raw) =
     (case validator self of
        None \<Rightarrow> None
      | Some vd \<Rightarrow> (case validate vd raw of Inl e \<Rightarrow> Some e | Inr vd' \<Rightarrow> None))
   \<and> (\<forall>s e. raw = PStr s \<and> fst (set_value self raw) = Some e \<longrightarrow>
          e = ValueError msg_only_digits \<or> e = ValueError msg_nine_digits
          \<or> e = ValueError msg_bad_date \<or> e = ValueError msg_bad_email)
   \<and> (\<forall>e. raw = PNone \<and> fst (set_value self raw) = Some e \<longrightarrow>
          e = AttributeError msg_none_isdigit \<or> e = TypeError msg_strptime_none)
   \<and> (fst (set_value self raw) \<noteq> None \<longrightarrow> snd (set_value self raw) = self)
   \<and> (fst (set_value self raw) = None \<longrightarrow>
        snd (set_value self raw) =
          \<lparr>value = raw,
           validator = (case validator self of
                          Some (EmailValidator a) \<Rightarrow> Some (EmailValidator (Some raw))
                        | v \<Rightarrow> v)\<rparr>
        \<and> value (snd (set_value self raw)) = raw
        \<and> get_value (snd (set_value self raw)) = raw)"
proof (cases "validator self")
  case None
  then show ?thesis by (simp add: set_value_def get_value_def)
next
  case (Some vd)
  show ?thesis
  proof (cases "validate vd raw")
    case (Inl e)
    have str: "\<forall>s e'. raw = PStr s \<and> e = e' \<longrightarrow>
          e' = ValueError msg_only_digits \<or> e' = ValueError msg_nine_digits
          \<or> e' = ValueError msg_bad_date \<or> e' = ValueError msg_bad_email"
      using Inl validate_str_error by blast
    have none: "\<forall>e'. raw = PNone \<and> e = e' \<longrightarrow>
          e' = AttributeError msg_none_isdigit \<or> e' = TypeError msg_strptime_none"
      using Inl validate_none_error by blast
    from str none Some Inl show ?thesis by (simp add: set_value_def)
  next
    case (Inr vd')
    from validate_result [OF Inr]
    have "vd' = (case vd of EmailValidator a \<Rightarrow> EmailValidator (Some raw) | _ \<Rightarrow> vd)" .
    with Some Inr show ?thesis
      by (cases vd) (simp_all add: set_value_def get_value_def)
  qed
qed

theorem set_value_all_or_nothing_witness:
  "fst (set_value \<lparr>value = PStr ''123456789'', validator = Some PhoneValidator\<rparr> (PStr ''12ab''))
     = Some (ValueError msg_only_digits)
   \<and> snd (set_value \<lparr>value = PStr ''123456789'', validator = Some PhoneValidator\<rparr> (PStr ''12ab''))
       = \<lparr>value = PStr ''123456789'', validator = Some PhoneValidator\<rparr>
   \<and> fst (set_value \<lparr>value = PStr ''123456789'', validator = Some PhoneValidator\<rparr> PNone)
       = Some (AttributeError msg_none_isdigit)
   \<and> snd (set_value \<lparr>value = PStr ''123456789'', validator = Some PhoneValidator\<rparr> PNone)
       = \<lparr>value = PStr ''123456789'', validator = Some PhoneValidator\<rparr>
   \<and> fst (set_value \<lparr>value = PNone, validator = Some DateValidator\<rparr> (PStr ''15-05-1990'')) = None
   \<and> snd (set_value \<lparr>value = PNone, validator = Some DateValidator\<rparr> (PStr ''15-05-1990''))
       = \<lparr>value = PStr ''15-05-1990'', validator = Some DateValidator\<rparr>
   \<and> fst (set_value \<lparr>value = PNone, validator = Some (EmailValidator None)\<rparr>
             (PStr ''john.doe@gmail.com'')) = None
   \<and> snd (set_value \<lparr>value = PNone, validator = Some (EmailValidator None)\<rparr>
             (PStr ''john.doe@gmail.com''))
       = \<lparr>value = PStr ''john.doe@gmail.com'',
          validator = Some (EmailValidator (Some (PStr ''john.doe@gmail.com'')))\<rparr>"
proof -
  let ?f = "\<lparr>value = PStr ''123456789'', validator = Some PhoneValidator\<rparr>"
  let ?g = "\<lparr>value = PNone, validator = Some DateValidator\<rparr>"
  let ?h = "\<lparr>value = PNone, validator = Some (EmailValidator None)\<rparr>"
  have bad: "validate PhoneValidator (PStr ''12ab'') = Inl (ValueError msg_only_digits)"
    by code_simp
  have none: "validate PhoneValidator PNone = Inl (AttributeError msg_none_isdigit)"
    by simp
  have good: "validate DateValidator (PStr ''15-05-1990'') = Inr DateValidator"
    by code_simp
  have mail: "validate (EmailValidator None) (PStr ''john.doe@gmail.com'')
                = Inr (EmailValidator (Some (PStr ''john.doe@gmail.com'')))"
    by code_simp
  have 1: "fst (set_value ?f (PStr ''12ab'')) = Some (ValueError msg_only_digits)"
    using bad by (simp add: set_value_def del: validate.simps)
  have 2: "fst (set_value ?f PNone) = Some (AttributeError msg_none_isdigit)"
    using none by (simp add: set_value_def del: validate.simps)
  have 3: "fst (set_value ?g (PStr ''15-05-1990'')) = None"
    using good by (simp add: set_value_def del: validate.simps)
  have 4: "fst (set_value ?h (PStr ''john.doe@gmail.com'')) = None"
    using mail by (simp add: set_value_def del: validate.simps)
  from 1 have "fst (set_value ?f (PStr ''12ab'')) \<noteq> None" by simp
  with set_value_all_or_nothing [of ?f "PStr ''12ab''"]
  have 5: "snd (set_value ?f (PStr ''12ab'')) = ?f" by blast
  from 2 have "fst (set_value ?f PNone) \<noteq> None" by simp
  with set_value_all_or_nothing [of ?f PNone]
  have 6: "snd (set_value ?f PNone) = ?f" by blast
  from set_value_all_or_nothing [of ?g "PStr ''15-05-1990''"] 3
  have 7: "snd (set_value ?g (PStr ''15-05-1990''))
             = \<lparr>value = PStr ''15-05-1990'', validator = Some DateValidator\<rparr>"
    by simp
  from set_value_all_or_nothing [of ?h "PStr ''john.doe@gmail.com''"] 4
  have 8: "snd (set_value ?h (PStr ''john.doe@gmail.com''))
             = \<lparr>value = PStr ''john.doe@gmail.com'',
                validator = Some (EmailValidator (Some (PStr ''john.doe@gmail.com'')))\<rparr>"
    by simp
  from 1 2 3 4 5 6 7 8 show ?thesis by blast
qed

text \<open>
  Claim C3 as stated fails in its last sentence: after a successful \<^verbatim>\<open>set_value\<close> on a
  field with an \<^verbatim>\<open>EmailValidator\<close>, the field is not the old field with only the stored
  value replaced, since the validator object has changed as well.
\<close>

theorem set_value_no_other_state_counterexample:
  "snd (set_value \<lparr>value = PNone, validator = Some (EmailValidator None)\<rparr>
                  (PStr ''john.doe@gmail.com''))
   \<noteq> \<lparr>value = PNone, validator = Some (EmailValidator None)\<rparr>
        \<lparr>value := PStr ''john.doe@gmail.com''\<rparr>"
proof -
  have "validate (EmailValidator None) (PStr ''john.doe@gmail.com'')
          = Inr (EmailValidator (Some (PStr ''john.doe@gmail.com'')))"
    by code_simp
  then show ?thesis by (simp add: set_value_def del: validate.simps)
qed

text \<open>
  On a string with none of the three superscript digits, \<^verbatim>\<open>str.isdigit\<close> is true of a
  character exactly when it is one of \<^verbatim>\<open>0\<close> to \<^verbatim>\<open>9\<close>; there the validator checks the digits
  first and the length second, as the specification says, the empty string failing the
  first check.
\<close>

lemma isdigit_char_plain:
  "c \<noteq> CHR 0xB2 \<Longrightarrow> c \<noteq> CHR 0xB3 \<Longrightarrow> c \<noteq> CHR 0xB9 \<Longrightarrow>
     isdigit_char c = spec_decimal_digit c"
  by (simp add: isdigit_char_def spec_decimal_digit_def)

lemma list_all_isdigit_plain:
  "list_all (\<lambda>c. c \<noteq> CHR 0xB2 \<and> c \<noteq> CHR 0xB3 \<and> c \<noteq> CHR 0xB9) v \<Longrightarrow>
     list_all isdigit_char v = list_all spec_decimal_digit v"
  by (induction v) (auto simp: isdigit_char_plain)

lemma PhoneValidator_validate_plain:
  "list_all (\<lambda>c. c \<noteq> CHR 0xB2 \<and> c \<noteq> CHR 0xB3 \<and> c \<noteq> CHR 0xB9) v \<Longrightarrow>
     PhoneValidator_validate (PStr v) =
       (if v = [] \<or> \<not> list_all spec_decimal_digit v then Inl (ValueError msg_only_digits)
        else if length v \<noteq> 9 then Inl (ValueError msg_nine_digits)
        else Inr ())"
  by (simp add: isdigit_def list_all_isdigit_plain)

lemma PhoneValidator_validate_empty:
  "PhoneValidator_validate (PStr []) = Inl (ValueError msg_only_digits)"
  by code_simp

lemma phone_messages_differ: "msg_only_digits \<noteq> msg_nine_digits"
  by (simp add: msg_only_digits_def msg_nine_digits_def)

text \<open>
  Claim C7. The digits check is \<^verbatim>\<open>str.isdigit\<close>, which also counts the superscript digits:
  nine characters U+00B2 (superscript two), none of them a decimal digit, are accepted as
  a phone number.
\<close>

theorem PhoneValidator_accepts_superscripts:
  "PhoneValidator_validate (PStr (replicate 9 (CHR 0xB2))) = Inr ()
   \<and> \<not> list_all spec_decimal_digit (replicate 9 (CHR 0xB2))
   \<and> list_all (\<lambda>c. \<not> spec_decimal_digit c) (replicate 9 (CHR 0xB2))
   \<and> length (replicate 9 (CHR 0xB2)) = 9"
  by code_simp

section \<open>Properties of the phone list\<close>

lemma validate_123456789: "PhoneValidator_validate (PStr ''123456789'') = Inr ()"
  by code_simp

lemma filter_no_match:
  "s \<notin> set (map f xs) \<Longrightarrow> filter (\<lambda>p. f p \<noteq> s) xs = xs"
  by (induction xs) auto

lemma remove_phone_filter:
  "remove_phone self raw =
     self\<lparr>phones := filter (\<lambda>p. str (value p) \<noteq> str raw) (phones self)\<rparr>"
  by (simp add: remove_phone_def get_value_def Let_def filter_no_match)

lemma add_phone_accepted:
  "PhoneValidator_validate raw = Inr () \<Longrightarrow>
     add_phone self raw =
       (None, self\<lparr>phones := phones self @ [\<lparr>value = raw, validator = Some PhoneValidator\<rparr>]\<rparr>)"
  by (simp add: add_phone_def set_value_def del: PhoneValidator_validate.simps)

text \<open>
  Claim C9. For every input that \<^verbatim>\<open>PhoneValidator\<close> accepts, and so for \<^verbatim>\<open>"123456789"\<close>,
  \<^verbatim>\<open>add_phone\<close> succeeds and appends one entry that stores the input, and \<^verbatim>\<open>get_value\<close> on
  the appended entry returns the input. \<^verbatim>\<open>remove_phone(raw)\<close> keeps, in their order,
  exactly the entries whose stored value does not stringify to \<^verbatim>\<open>str(raw)\<close>, and changes
  nothing else; when no entry matches, the record is unchanged.
\<close>

theorem phone_add_get_remove:
  "(PhoneValidator_validate raw = Inr () \<longrightarrow>
      add_phone self raw =
        (None, self\<lparr>phones := phones self @ [\<lparr>value = raw, validator = Some PhoneValidator\<rparr>]\<rparr>)
      \<and> value (last (phones (snd (add_phone self raw)))) = raw
      \<and> get_value (last (phones (snd (add_phone self raw)))) = raw)
   \<and> add_phone self (PStr ''123456789'') =
     (None, self\<lparr>phones := phones self
                 @ [\<lparr>value = PStr ''123456789'', validator = Some PhoneValidator\<rparr>]\<rparr>)
   \<and> value (last (phones (snd (add_phone self (PStr ''123456789''))))) = PStr ''123456789''
   \<and> get_value (last (phones (snd (add_phone self (PStr ''123456789''))))) = PStr ''123456789''
   \<and> remove_phone self raw =
       self\<lparr>phones := filter (\<lambda>p. str (value p) \<noteq> str raw) (phones self)\<rparr>
   \<and> remove_phone self raw =
       self\<lparr>phones := filter (\<lambda>p. str (get_value p) \<noteq> str raw) (phones self)\<rparr>
   \<and> (str raw \<notin> set (map (\<lambda>p. str (value p)) (phones self))
        \<longrightarrow> remove_phone self raw = self)
   \<and> (str raw \<notin> set (map (\<lambda>p. str (get_value p)) (phones self))
        \<longrightarrow> remove_phone self raw = self)"
proof -
  have acc: "PhoneValidator_validate raw = Inr () \<longrightarrow>
      add_phone self raw =
        (None, self\<lparr>phones := phones self @ [\<lparr>value = raw, validator = Some PhoneValidator\<rparr>]\<rparr>)
      \<and> value (last (phones (snd (add_phone self raw)))) = raw
      \<and> get_value (last (phones (snd (add_phone self raw)))) = raw"
    by (simp add: add_phone_accepted get_value_def)
  have add: "add_phone self (PStr ''123456789'') =
     (None, self\<lparr>phones := phones self
                 @ [\<lparr>value = PStr ''123456789'', validator = Some PhoneValidator\<rparr>]\<rparr>)"
    by (rule add_phone_accepted [OF validate_123456789])
  have val: "value (last (phones (snd (add_phone self (PStr ''123456789''))))) = PStr ''123456789''"
    by (simp add: add)
  have get: "get_value (last (phones (snd (add_phone self (PStr ''123456789''))))) = PStr ''123456789''"
    by (simp add: add get_value_def)
  have rem: "remove_phone self raw =
       self\<lparr>phones := filter (\<lambda>p. str (value p) \<noteq> str raw) (phones self)\<rparr>"
    by (rule remove_phone_filter)
  have rem': "remove_phone self raw =
       self\<lparr>phones := filter (\<lambda>p. str (get_value p) \<noteq> str raw) (phones self)\<rparr>"
    using rem by (simp add: get_value_def)
  have noop: "str raw \<notin> set (map (\<lambda>p. str (value p)) (phones self))
        \<longrightarrow> remove_phone self raw = self"
    by (simp add: remove_phone_def get_value_def)
  have noop': "str raw \<notin> set (map (\<lambda>p. str (get_value p)) (phones self))
        \<longrightarrow> remove_phone self raw = self"
    by (simp add: remove_phone_def)
  from acc add val get rem rem' noop noop' show ?thesis by blast
qed

theorem phone_add_get_remove_witness:
  "PhoneValidator_validate (PStr ''555888777'') = Inr ()
   \<and> add_phone \<lparr>phone = \<lparr>value = PNone, validator = Some PhoneValidator\<rparr>,
               phones = [\<lparr>value = PStr ''123456789'', validator = Some PhoneValidator\<rparr>]\<rparr>
        (PStr ''555888777'')
      = (None,
         \<lparr>phone = \<lparr>value = PNone, validator = Some PhoneValidator\<rparr>,
          phones = [\<lparr>value = PStr ''123456789'', validator = Some PhoneValidator\<rparr>,
                    \<lparr>value = PStr ''555888777'', validator = Some PhoneValidator\<rparr>]\<rparr>)
   \<and> get_value (last (phones (snd (add_phone
        \<lparr>phone = \<lparr>value = PNone, validator = Some PhoneValidator\<rparr>,
         phones = [\<lparr>value = PStr ''123456789'', validator = Some PhoneValidator\<rparr>]\<rparr>
        (PStr ''555888777''))))) = PStr ''555888777''
   \<and> str (PStr ''987654321'') \<notin> set (map (\<lambda>p. str (value p))
      (phones \<lparr>phone = \<lparr>value = PNone, validator = Some PhoneValidator\<rparr>,
               phones = [\<lparr>value = PStr ''123456789'', validator = Some PhoneValidator\<rparr>]\<rparr>))
   \<and> remove_phone \<lparr>phone = \<lparr>value = PNone, validator = Some PhoneValidator\<rparr>,
               phones = [\<lparr>value = PStr ''123456789'', validator = Some PhoneValidator\<rparr>]\<rparr>
         (PStr ''987654321'')
     = \<lparr>phone = \<lparr>value = PNone, validator = Some PhoneValidator\<rparr>,
               phones = [\<lparr>value = PStr ''123456789'', validator = Some PhoneValidator\<rparr>]\<rparr>
   \<and> remove_phone \<lparr>phone = \<lparr>value = PNone, validator = Some PhoneValidator\<rparr>,
               phones = [\<lparr>value = PStr ''123456789'', validator = Some PhoneValidator\<rparr>,
                         \<lparr>value = PStr ''987654321'', validator = Some PhoneValidator\<rparr>,
                         \<lparr>value = PStr ''123456789'', validator = Some PhoneValidator\<rparr>]\<rparr>
         (PStr ''123456789'')
     = \<lparr>phone = \<lparr>value = PNone, validator = Some PhoneValidator\<rparr>,
               phones = [\<lparr>value = PStr ''987654321'', validator = Some PhoneValidator\<rparr>]\<rparr>"
proof -
  let ?self = "\<lparr>phone = \<lparr>value = PNone, validator = Some PhoneValidator\<rparr>,
               phones = [\<lparr>value = PStr ''123456789'', validator = Some PhoneValidator\<rparr>]\<rparr>"
  let ?three = "\<lparr>phone = \<lparr>value = PNone, validator = Some PhoneValidator\<rparr>,
               phones = [\<lparr>value = PStr ''123456789'', validator = Some PhoneValidator\<rparr>,
                         \<lparr>value = PStr ''987654321'', validator = Some PhoneValidator\<rparr>,
                         \<lparr>value = PStr ''123456789'', validator = Some PhoneValidator\<rparr>]\<rparr>"
  have ok: "PhoneValidator_validate (PStr ''555888777'') = Inr ()"
    by code_simp
  have h: "str (PStr ''987654321'') \<notin> set (map (\<lambda>p. str (value p)) (phones ?self))"
    by simp
  note t = phone_add_get_remove [of "PStr ''555888777''" ?self]
  from t ok have 1: "add_phone ?self (PStr ''555888777'') =
      (None, ?self\<lparr>phones := phones ?self
                 @ [\<lparr>value = PStr ''555888777'', validator = Some PhoneValidator\<rparr>]\<rparr>)"
    by blast
  from t ok have 2: "get_value (last (phones (snd (add_phone ?self (PStr ''555888777'')))))
      = PStr ''555888777''"
    by blast
  from phone_add_get_remove [of "PStr ''987654321''" ?self] h
  have 3: "remove_phone ?self (PStr ''987654321'') = ?self" by blast
  from phone_add_get_remove [of "PStr ''123456789''" ?three]
  have "remove_phone ?three (PStr ''123456789'') =
      ?three\<lparr>phones := filter (\<lambda>p. str (value p) \<noteq> str (PStr ''123456789'')) (phones ?three)\<rparr>"
    by blast
  then have 4: "remove_phone ?three (PStr ''123456789'') =
      \<lparr>phone = \<lparr>value = PNone, validator = Some PhoneValidator\<rparr>,
       phones = [\<lparr>value = PStr ''987654321'', validator = Some PhoneValidator\<rparr>]\<rparr>"
    by simp
  from ok 1 2 h 3 4 show ?thesis by simp
qed

text \<open>
  Claim C10. When \<^verbatim>\<open>PhoneValidator\<close> rejects the input, \<^verbatim>\<open>add_phone\<close> raises that error and
  the record, with its phone list, is as before the call; when it accepts, exactly one
  new field holding the input is appended.
\<close>

theorem add_phone_atomic:
  "(PhoneValidator_validate raw = Inl e \<longrightarrow> add_phone self raw = (Some e, self))
   \<and> (PhoneValidator_validate raw = Inr () \<longrightarrow>
        add_phone self raw =
          (None, self\<lparr>phones := phones self @ [\<lparr>value = raw, validator = Some PhoneValidator\<rparr>]\<rparr>))"
  by (simp add: add_phone_def set_value_def del: PhoneValidator_validate.simps)

theorem add_phone_atomic_witness:
  "PhoneValidator_validate (PStr ''12ab'') = Inl (ValueError msg_only_digits)
   \<and> add_phone \<lparr>phone = \<lparr>value = PNone, validator = Some PhoneValidator\<rparr>,
               phones = [\<lparr>value = PStr ''123456789'', validator = Some PhoneValidator\<rparr>]\<rparr>
        (PStr ''12ab'')
      = (Some (ValueError msg_only_digits),
         \<lparr>phone = \<lparr>value = PNone, validator = Some PhoneValidator\<rparr>,
               phones = [\<lparr>value = PStr ''123456789'', validator = Some PhoneValidator\<rparr>]\<rparr>)
   \<and> PhoneValidator_validate (PStr ''555888777'') = Inr ()
   \<and> add_phone \<lparr>phone = \<lparr>value = PNone, validator = Some PhoneValidator\<rparr>,
               phones = [\<lparr>value = PStr ''123456789'', validator = Some PhoneValidator\<rparr>]\<rparr>
        (PStr ''555888777'')
      = (None,
         \<lparr>phone = \<lparr>value = PNone, validator = Some PhoneValidator\<rparr>,
               phones = [\<lparr>value = PStr ''123456789'', validator = Some PhoneValidator\<rparr>,
                         \<lparr>value = PStr ''555888777'', validator = Some PhoneValidator\<rparr>]\<rparr>)"
proof -
  let ?self = "\<lparr>phone = \<lparr>value = PNone, validator = Some PhoneValidator\<rparr>,
               phones = [\<lparr>value = PStr ''123456789'', validator = Some PhoneValidator\<rparr>]\<rparr>"
  have bad: "PhoneValidator_validate (PStr ''12ab'') = Inl (ValueError msg_only_digits)"
    by code_simp
  have good: "PhoneValidator_validate (PStr ''555888777'') = Inr ()"
    by code_simp
  from add_phone_atomic [of "PStr ''12ab''" "ValueError msg_only_digits" ?self] bad
  have 1: "add_phone ?self (PStr ''12ab'') = (Some (ValueError msg_only_digits), ?self)"
    by blast
  from add_phone_atomic [of "PStr ''555888777''" _ ?self] good
  have 2: "add_phone ?self (PStr ''555888777'') =
      (None, ?self\<lparr>phones := phones ?self
                 @ [\<lparr>value = PStr ''555888777'', validator = Some PhoneValidator\<rparr>]\<rparr>)"
    by blast
  from bad 1 good 2 show ?thesis by simp
qed


section \<open>Where the code departs from the specification\<close>

lemma first_index_None:
  "first_index k ps s = None \<longleftrightarrow> s \<notin> set (map (\<lambda>p. str (get_value p)) ps)"
  by (induction ps arbitrary: k) auto

lemma first_index_Some:
  "first_index k ps s = Some i \<Longrightarrow>
     k \<le> i \<and> i - k < length ps \<and> str (get_value (ps ! (i - k))) = s
     \<and> (\<forall>j < i - k. str (get_value (ps ! j)) \<noteq> s)"
proof (induction ps arbitrary: k)
  case Nil
  then show ?case by simp
next
  case (Cons p ps)
  show ?case
  proof (cases "str (get_value p) = s")
    case True
    with Cons.prems show ?thesis by simp
  next
    case False
    with Cons.prems have "first_index (Suc k) ps s = Some i" by simp
    from Cons.IH [OF this] have ih: "Suc k \<le> i" "i - Suc k < length ps"
      "str (get_value (ps ! (i - Suc k))) = s"
      "\<forall>j < i - Suc k. str (get_value (ps ! j)) \<noteq> s" by auto
    from ih(1) have eq: "i - k = Suc (i - Suc k)" by simp
    have "\<forall>j < i - k. str (get_value ((p # ps) ! j)) \<noteq> s"
    proof (intro allI impI)
      fix j assume "j < i - k"
      then show "str (get_value ((p # ps) ! j)) \<noteq> s"
        using False ih(4) eq by (cases j) auto
    qed
    with ih eq show ?thesis by simp
  qed
qed

text \<open>
  The parts of \<^verbatim>\<open>edit_phone\<close> that do what the specification says: with no matching entry
  it prints the message and changes nothing; with a match, the first matching entry and
  no other is replaced.
\<close>

lemma edit_phone_not_found:
  "str old \<notin> set (map (\<lambda>p. str (get_value p)) (phones self)) \<Longrightarrow>
     edit_phone self old new = ([msg_phone_not_found], self)"
proof -
  assume "str old \<notin> set (map (\<lambda>p. str (get_value p)) (phones self))"
  then have "first_index 0 (phones self) (str old) = None"
    using first_index_None [of 0 "phones self" "str old"] by blast
  then show ?thesis by (simp add: edit_phone_def get_value_def)
qed

lemma edit_phone_found:
  "first_index 0 (phones self) (str old) = Some i \<Longrightarrow>
     edit_phone self old new =
       ([], self\<lparr>phones := (phones self)[i := \<lparr>value = new, validator = Some PhoneValidator\<rparr>]\<rparr>)"
  by (simp add: edit_phone_def get_value_def)

text \<open>
  Claim C1. The replacement field is built by the constructor \<^verbatim>\<open>Field(new_phone,
  PhoneValidator())\<close>, which stores its argument without calling the validator. Replacing
  \<^verbatim>\<open>"123456789"\<close> by \<^verbatim>\<open>"abc"\<close>, which the validator rejects, raises nothing and stores
  \<^verbatim>\<open>"abc"\<close> in the list.
\<close>

theorem edit_phone_skips_validation:
  "PhoneValidator_validate (PStr ''abc'') = Inl (ValueError msg_only_digits)
   \<and> edit_phone
        \<lparr>phone = \<lparr>value = PNone, validator = Some PhoneValidator\<rparr>,
         phones = [\<lparr>value = PStr ''123456789'', validator = Some PhoneValidator\<rparr>]\<rparr>
        (PStr ''123456789'') (PStr ''abc'')
      = ([], \<lparr>phone = \<lparr>value = PNone, validator = Some PhoneValidator\<rparr>,
              phones = [\<lparr>value = PStr ''abc'', validator = Some PhoneValidator\<rparr>]\<rparr>)"
  by code_simp

text \<open>
  A string or \<^verbatim>\<open>None\<close> is never found among keys that are \<^verbatim>\<open>Field\<close> objects, and
  \<^verbatim>\<open>add_note\<close> only ever adds such keys.
\<close>

lemma field_keys_miss: "field_keys d \<Longrightarrow> \<not> dict_contains d (Val t)"
  by (induction d rule: field_keys.induct) auto

lemma field_keys_dict_set: "field_keys d \<Longrightarrow> field_keys (dict_set d (FieldObj i f) v)"
  by (induction d rule: field_keys.induct) auto

lemma add_note_field_keys:
  "field_keys (notes self) \<Longrightarrow> field_keys (notes (add_note self i t n))"
  by (simp add: add_note_def field_keys_dict_set)

lemma raw_tag_always_misses:
  "field_keys (notes self) \<Longrightarrow>
     edit_note self (Val t) n = ([msg_edit_missing], None, self)
     \<and> remove_note self (Val t) = ([msg_remove_missing (Val t)], self)"
  by (simp add: edit_note_def remove_note_def field_keys_miss)

text \<open>
  Claim C2. After \<^verbatim>\<open>add_note("Family", "I have a wife")\<close> on a new \<^verbatim>\<open>RecordInfo\<close>, whatever
  the identity of the key object, \<^verbatim>\<open>edit_note("Family", "Updated")\<close> prints that the note
  does not exist and leaves the note as it was, and \<^verbatim>\<open>remove_note("Family")\<close> prints that
  the note does not exist and removes nothing.
\<close>

theorem note_lookup_by_raw_tag_misses:
  "add_note RecordInfo_init oid (PStr ''Family'') (PStr ''I have a wife'')
     = RecordInfo_init\<lparr>notes := [(FieldObj oid \<lparr>value = PStr ''Family'', validator = None\<rparr>,
                                  \<lparr>value = PStr ''I have a wife'', validator = None\<rparr>)]\<rparr>
   \<and> edit_note (add_note RecordInfo_init oid (PStr ''Family'') (PStr ''I have a wife''))
        (Val (PStr ''Family'')) (PStr ''Updated'')
      = ([msg_edit_missing], None,
         add_note RecordInfo_init oid (PStr ''Family'') (PStr ''I have a wife''))
   \<and> remove_note (add_note RecordInfo_init oid (PStr ''Family'') (PStr ''I have a wife''))
        (Val (PStr ''Family''))
      = ([msg_remove_missing (Val (PStr ''Family''))],
         add_note RecordInfo_init oid (PStr ''Family'') (PStr ''I have a wife''))"
  by (simp add: add_note_def RecordInfo_init_def edit_note_def remove_note_def)

text \<open>
  Claim C4. The birthday field carries a \<^verbatim>\<open>DateValidator\<close>, and \<^verbatim>\<open>remove_birthday\<close> passes
  \<^verbatim>\<open>None\<close> through it: \<^verbatim>\<open>strptime\<close> raises \<^verbatim>\<open>TypeError\<close>, which the validator does not catch.
  Whatever the stored value, the call raises and the stored value stays.
\<close>

theorem remove_birthday_raises:
  "remove_birthday \<lparr>birthday = \<lparr>value = v, validator = Some DateValidator\<rparr>\<rparr>
     = (Some (TypeError msg_strptime_none),
        \<lparr>birthday = \<lparr>value = v, validator = Some DateValidator\<rparr>\<rparr>)"
  by (simp add: remove_birthday_def set_value_def DateValidator_validate_def)

text \<open>
  Claim C5. The clock reading carries the time of day and is compared with midnight of
  this year's birthday. On 15 May 2024 at noon, a birthday on 15 May gives 364 and a
  birthday on 16 May gives 0; only at midnight does a birthday on the same day give 0.
  For a birthday on 29 February, in a year that is not a leap year the constructor of
  this year's birthday raises \<^verbatim>\<open>ValueError\<close>.
\<close>

theorem days_to_birthday_on_birthday:
  "days_to_birthday
     \<lparr>birthday = \<lparr>value = PStr ''15-05-1990'', validator = Some DateValidator\<rparr>\<rparr>
     \<lparr>year = 2024, month = 5, day = 15, hour = 12, minute = 0, second = 0, microsecond = 0\<rparr>
     = Inr (Some 364)
   \<and> days_to_birthday
     \<lparr>birthday = \<lparr>value = PStr ''16-05-1990'', validator = Some DateValidator\<rparr>\<rparr>
     \<lparr>year = 2024, month = 5, day = 15, hour = 12, minute = 0, second = 0, microsecond = 0\<rparr>
     = Inr (Some 0)
   \<and> days_to_birthday
     \<lparr>birthday = \<lparr>value = PStr ''15-05-1990'', validator = Some DateValidator\<rparr>\<rparr>
     \<lparr>year = 2024, month = 5, day = 15, hour = 0, minute = 0, second = 0, microsecond = 0\<rparr>
     = Inr (Some 0)
   \<and> days_to_birthday
     \<lparr>birthday = \<lparr>value = PStr ''29-02-2000'', validator = Some DateValidator\<rparr>\<rparr>
     \<lparr>year = 2001, month = 3, day = 1, hour = 12, minute = 0, second = 0, microsecond = 0\<rparr>
     = Inl LibValueError"
  by code_simp

text \<open>The dates that the specification lists are handled as it says.\<close>

lemma DateValidator_examples:
  "DateValidator_validate (PStr ''15-05-1990'') = Inr ()"
  "DateValidator_validate (PStr ''31-02-2020'') = Inl (ValueError msg_bad_date)"
  "DateValidator_validate (PStr ''00-01-2020'') = Inl (ValueError msg_bad_date)"
  "DateValidator_validate (PStr ''15/05/1990'') = Inl (ValueError msg_bad_date)"
  by code_simp+

text \<open>
  Claim C6. \<^verbatim>\<open>strptime\<close> takes a day and a month of one digit: \<^verbatim>\<open>"1-1-2020"\<close>, which has not
  the shape of two digits, two digits and four digits, is accepted.
\<close>

theorem DateValidator_accepts_short_fields:
  "DateValidator_validate (PStr ''1-1-2020'') = Inr () \<and> \<not> spec_date_shape ''1-1-2020''"
  by code_simp

text \<open>The addresses that the specification lists are handled as it says.\<close>

lemma EmailValidator_examples:
  "EmailValidator_validate a PNone = Inr (Some PNone)"
  "EmailValidator_validate a (PStr ''john.doe@gmail.com'') = Inr (Some (PStr ''john.doe@gmail.com''))"
  "EmailValidator_validate a (PStr ''not-an-email'') = Inl (ValueError msg_bad_email)"
  "EmailValidator_validate a (PStr ''a@b'') = Inl (ValueError msg_bad_email)"
  "EmailValidator_validate a (PStr ''a@b.cd e@f.gh'') = Inl (ValueError msg_bad_email)"
  by code_simp+

text \<open>
  Claim C8. \<^verbatim>\<open>"a@b.cd.e@f.gh"\<close> holds two addresses of the shape the specification
  describes, and is accepted, because the separator class of the pattern contains \<^verbatim>\<open>@\<close>.
  \<^verbatim>\<open>"a@b.c|"\<close> holds none, its last segment having one letter, and is accepted, because
  the class of the last segment contains \<^verbatim>\<open>|\<close>.
\<close>

theorem EmailValidator_accepts_outside_shape:
  "EmailValidator_validate a (PStr ''a@b.cd.e@f.gh'') = Inr (Some (PStr ''a@b.cd.e@f.gh''))
   \<and> findall spec_email_shape ''a@b.cd.e@f.gh'' = [''a@b.cd'', ''e@f.gh'']
   \<and> \<not> spec_email_accepts (PStr ''a@b.cd.e@f.gh'')
   \<and> EmailValidator_validate a (PStr ''a@b.c|'') = Inr (Some (PStr ''a@b.c|''))
   \<and> \<not> spec_email_accepts (PStr ''a@b.c|'')"
  by code_simp

end
